theory Spec2Isabelle
  imports Main
begin

section \<open>JavaScript strings\<close>

text \<open>
  A JavaScript string is a sequence of UTF-16 code units. It is modelled as a
  \<^typ>\<open>string\<close> whose characters are the code units below 256, so that
  \<open>length\<close> is the \<^verbatim>\<open>.length\<close> of the source. The operator signs of the
  calculator are single code units: U+00D7 (multiplication) and U+00F7 (division).
\<close>

definition times_sign :: string where
  "times_sign = [CHR 0xD7]"

definition division_sign :: string where
  "division_sign = [CHR 0xF7]"

text \<open>\<^verbatim>\<open>s.includes(t)\<close>: \<open>t\<close> occurs in \<open>s\<close> as a contiguous substring.\<close>

fun includes_str :: "string \<Rightarrow> string \<Rightarrow> bool" where
  "includes_str [] t = (t = [])"
| "includes_str (c # s) t = (take (length t) (c # s) = t \<or> includes_str s t)"

text \<open>
  \<^verbatim>\<open>s.slice(start, end)\<close>: a negative index counts from the end, and both
  indices are clamped to the string.
\<close>

definition slice :: "string \<Rightarrow> int \<Rightarrow> int \<Rightarrow> string" where
  "slice s i j =
     (let len = int (length s);
          lo = (if i < 0 then max (len + i) 0 else min i len);
          hi = (if j < 0 then max (len + j) 0 else min j len)
      in take (nat (hi - lo)) (drop (nat lo) s))"

section \<open>JavaScript numbers\<close>

text \<open>
  The evaluator of the calculator works on the Number type: it parses both operands
  with \<^verbatim>\<open>parseFloat\<close>, applies one IEEE 754 binary64 operation and prints the
  result with \<^verbatim>\<open>toString\<close>. A finite number is \<open>Finite neg m e\<close>, of value
  \<open>m * 2 ^ e\<close> with the sign \<open>neg\<close>; \<open>m\<close> is odd, or \<open>m = 0\<close> and \<open>e = 0\<close>
  for the two zeros. All arithmetic is on integers: a non-negative rational is a pair
  \<open>(p, q)\<close> standing for \<open>p / q\<close>.
\<close>

datatype number = NaN | Infinity bool | Finite bool int int

subsection \<open>Rounding a rational to the nearest binary64 value\<close>

text \<open>The number of binary, and of decimal, digits of a positive integer.\<close>

function bits :: "int \<Rightarrow> int" where
  "bits n = (if n \<le> 0 then 0 else 1 + bits (n div 2))"
  by pat_completeness auto
termination
  by (relation "measure nat") auto

function ndigits :: "int \<Rightarrow> int" where
  "ndigits n = (if n < 10 then 1 else 1 + ndigits (n div 10))"
  by pat_completeness auto
termination
  by (relation "measure nat") auto

text \<open>Scaling the rational \<open>p / q\<close> by a power of two, or of ten; the exponent may be negative.\<close>

definition scale2 :: "int \<Rightarrow> int \<Rightarrow> int \<Rightarrow> int \<times> int" where
  "scale2 p q k = (if 0 \<le> k then (p * 2 ^ nat k, q) else (p, q * 2 ^ nat (- k)))"

definition scale10 :: "int \<Rightarrow> int \<Rightarrow> int \<Rightarrow> int \<times> int" where
  "scale10 p q k = (if 0 \<le> k then (p * 10 ^ nat k, q) else (p, q * 10 ^ nat (- k)))"

text \<open>
  For \<open>0 < p\<close> and \<open>0 < q\<close>: the integer \<open>l\<close> with \<open>2 ^ l \<le> p / q < 2 ^ (l + 1)\<close>,
  and the same in base ten.
\<close>

definition floor_log2 :: "int \<Rightarrow> int \<Rightarrow> int" where
  "floor_log2 p q =
     (let l = bits p - bits q
      in case scale2 p q (- l) of (P, Q) \<Rightarrow> if Q \<le> P then l else l - 1)"

definition floor_log10 :: "int \<Rightarrow> int \<Rightarrow> int" where
  "floor_log10 p q =
     (if q \<le> p then ndigits (p div q) - 1 else - ndigits ((q - 1) div p))"

text \<open>The integer nearest to \<open>p / q\<close>, a tie going to the even one.\<close>

definition round_half_even :: "int \<Rightarrow> int \<Rightarrow> int" where
  "round_half_even p q =
     (let f = p div q; r = p mod q
      in if 2 * r < q then f else if q < 2 * r then f + 1
         else if even f then f else f + 1)"

text \<open>The canonical form of \<open>m * 2 ^ e\<close>: an odd \<open>m\<close>, or \<open>(0, 0)\<close>.\<close>

function normalise :: "int \<Rightarrow> int \<Rightarrow> int \<times> int" where
  "normalise m e =
     (if m = 0 then (0, 0)
      else if even m then normalise (m div 2) (e + 1) else (m, e))"
  by pat_completeness auto
termination
  by (relation "measure (\<lambda>(m, e). nat \<bar>m\<bar>)") auto

text \<open>
  Round to nearest, ties to even, in binary64: 53 bits of precision, the least exponent
  \<open>- 1074\<close> (subnormal values included), and \<open>None\<close> when the rounded value
  reaches \<open>2 ^ 1024\<close>, which is an overflow to infinity.
\<close>

definition round_double :: "int \<Rightarrow> int \<Rightarrow> (int \<times> int) option" where
  "round_double p q =
     (if p = 0 then Some (0, 0)
      else let t = max (floor_log2 p q - 52) (- 1074)
           in case scale2 p q (- t) of (P, Q) \<Rightarrow>
                let m = round_half_even P Q
                in if 1024 < bits m + t then None else Some (normalise m t))"

definition mk_number :: "bool \<Rightarrow> int \<times> int \<Rightarrow> number" where
  "mk_number neg pq =
     (case round_double (fst pq) (snd pq) of
        None \<Rightarrow> Infinity neg
      | Some (m, e) \<Rightarrow> Finite neg m e)"

subsection \<open>Arithmetic\<close>

text \<open>
  The operators \<^verbatim>\<open>+\<close>, \<^verbatim>\<open>-\<close>, \<^verbatim>\<open>*\<close> and \<^verbatim>\<open>/\<close> on numbers: the exact result,
  rounded once, with the IEEE 754 rules for NaN, the infinities and the signed zeros.
\<close>

definition apply_sign :: "bool \<Rightarrow> int \<Rightarrow> int" where
  "apply_sign neg m = (if neg then - m else m)"

fun number_add :: "number \<Rightarrow> number \<Rightarrow> number" where
  "number_add NaN _ = NaN"
| "number_add _ NaN = NaN"
| "number_add (Infinity s) (Infinity t) = (if s = t then Infinity s else NaN)"
| "number_add (Infinity s) (Finite _ _ _) = Infinity s"
| "number_add (Finite _ _ _) (Infinity t) = Infinity t"
| "number_add (Finite s1 m1 e1) (Finite s2 m2 e2) =
     (let e = min e1 e2;
          c = apply_sign s1 m1 * 2 ^ nat (e1 - e) + apply_sign s2 m2 * 2 ^ nat (e2 - e)
      in if c = 0 then Finite (s1 \<and> s2) 0 0
         else mk_number (c < 0) (scale2 \<bar>c\<bar> 1 e))"

fun number_neg :: "number \<Rightarrow> number" where
  "number_neg NaN = NaN"
| "number_neg (Infinity s) = Infinity (\<not> s)"
| "number_neg (Finite s m e) = Finite (\<not> s) m e"

definition number_sub :: "number \<Rightarrow> number \<Rightarrow> number" where
  "number_sub a b = number_add a (number_neg b)"

fun number_mul :: "number \<Rightarrow> number \<Rightarrow> number" where
  "number_mul NaN _ = NaN"
| "number_mul _ NaN = NaN"
| "number_mul (Infinity s) (Infinity t) = Infinity (s \<noteq> t)"
| "number_mul (Infinity s) (Finite t m _) = (if m = 0 then NaN else Infinity (s \<noteq> t))"
| "number_mul (Finite s m _) (Infinity t) = (if m = 0 then NaN else Infinity (s \<noteq> t))"
| "number_mul (Finite s1 m1 e1) (Finite s2 m2 e2) =
     mk_number (s1 \<noteq> s2) (scale2 (m1 * m2) 1 (e1 + e2))"

fun number_div :: "number \<Rightarrow> number \<Rightarrow> number" where
  "number_div NaN _ = NaN"
| "number_div _ NaN = NaN"
| "number_div (Infinity s) (Infinity t) = NaN"
| "number_div (Infinity s) (Finite t _ _) = Infinity (s \<noteq> t)"
| "number_div (Finite s _ _) (Infinity t) = Finite (s \<noteq> t) 0 0"
| "number_div (Finite s1 m1 e1) (Finite s2 m2 e2) =
     (if m2 = 0 then (if m1 = 0 then NaN else Infinity (s1 \<noteq> s2))
      else mk_number (s1 \<noteq> s2) (scale2 m1 m2 (e1 - e2)))"

text \<open>\<^verbatim>\<open>isNaN(x)\<close>, and the comparison \<^verbatim>\<open>x === 0\<close>, which holds for both zeros.\<close>

definition isNaN :: "number \<Rightarrow> bool" where
  "isNaN x = (x = NaN)"

fun is_zero :: "number \<Rightarrow> bool" where
  "is_zero (Finite _ m _) = (m = 0)"
| "is_zero _ = False"

subsection \<open>Decimal digits\<close>

definition is_digit :: "char \<Rightarrow> bool" where
  "is_digit c = (c \<in> set ''0123456789'')"

definition digit_value :: "char \<Rightarrow> int" where
  "digit_value c = int (length (takeWhile (\<lambda>d. d \<noteq> c) ''0123456789''))"

definition digit_char :: "int \<Rightarrow> char" where
  "digit_char d = ''0123456789'' ! nat d"

definition digits_value :: "string \<Rightarrow> int" where
  "digits_value s = foldl (\<lambda>a c. 10 * a + digit_value c) 0 s"

function dec :: "int \<Rightarrow> string" where
  "dec n = (if n < 10 then [digit_char n] else dec (n div 10) @ [digit_char (n mod 10)])"
  by pat_completeness auto
termination
  by (relation "measure nat") auto

subsection \<open>parseFloat\<close>

text \<open>
  \<^verbatim>\<open>parseFloat\<close> skips leading white space and converts the longest prefix that is
  a decimal literal: an optional sign, then \<^verbatim>\<open>Infinity\<close> or digits with an optional
  fraction and an optional exponent. With no such prefix the result is NaN. The value
  of the literal is rounded once, from its exact decimal value. The white space is that
  of the code units below 256.
\<close>

definition is_white_space :: "char \<Rightarrow> bool" where
  "is_white_space c =
     (c \<in> set [CHR 0x09, CHR 0x0A, CHR 0x0B, CHR 0x0C, CHR 0x0D, CHR 0x20, CHR 0xA0])"

definition exponent_part :: "string \<Rightarrow> int" where
  "exponent_part r =
     (case r of
        [] \<Rightarrow> 0
      | c # r' \<Rightarrow>
          if c = CHR ''e'' \<or> c = CHR ''E'' then
            (case r' of
               [] \<Rightarrow> 0
             | d # r'' \<Rightarrow>
                 if d = CHR ''-'' then - digits_value (takeWhile is_digit r'')
                 else if d = CHR ''+'' then digits_value (takeWhile is_digit r'')
                 else digits_value (takeWhile is_digit r'))
          else 0)"

definition parseFloat :: "string \<Rightarrow> number" where
  "parseFloat inputString =
     (let trimmed = dropWhile is_white_space inputString;
          neg = (take 1 trimmed = ''-'');
          u = (if take 1 trimmed = ''-'' \<or> take 1 trimmed = ''+'' then drop 1 trimmed
               else trimmed)
      in if take 8 u = ''Infinity'' then Infinity neg
         else
           let ip = takeWhile is_digit u;
               r1 = dropWhile is_digit u;
               fp = (if take 1 r1 = ''.'' then takeWhile is_digit (drop 1 r1) else []);
               r2 = (if take 1 r1 = ''.'' then dropWhile is_digit (drop 1 r1) else r1)
           in if ip = [] \<and> fp = [] then NaN
              else mk_number neg
                     (scale10 (digits_value (ip @ fp)) 1
                        (exponent_part r2 - int (length fp))))"

subsection \<open>Number.prototype.toString\<close>

text \<open>
  The digits printed for a finite non-zero number are the shortest decimal significand
  \<open>s\<close>, of \<open>k\<close> digits, with \<open>s * 10 ^ (n - k)\<close> converting back to the
  number; of two such significands the one nearer to the number is taken. Seventeen
  digits always suffice for a binary64 value, so the search stops there with the
  nearest significand of seventeen digits.
\<close>

definition roundtrips :: "int \<times> int \<Rightarrow> int \<Rightarrow> int \<Rightarrow> bool" where
  "roundtrips me s t =
     (case scale10 s 1 t of (P, Q) \<Rightarrow> round_double P Q = Some me)"

definition candidate :: "int \<times> int \<Rightarrow> int \<times> int \<Rightarrow> int \<Rightarrow> int \<Rightarrow> int option" where
  "candidate me pq n0 k =
     (case scale10 (fst pq) (snd pq) (k - n0) of (P, Q) \<Rightarrow>
        let lo = P div Q;
            lo_ok = roundtrips me lo (n0 - k);
            hi_ok = roundtrips me (lo + 1) (n0 - k)
        in if lo_ok \<and> hi_ok then Some (round_half_even P Q)
           else if lo_ok then Some lo
           else if hi_ok then Some (lo + 1)
           else None)"

fun first_candidate :: "(int \<Rightarrow> int option) \<Rightarrow> int list \<Rightarrow> (int \<times> int) option" where
  "first_candidate f [] = None"
| "first_candidate f (k # ks) =
     (case f k of Some s \<Rightarrow> Some (s, k) | None \<Rightarrow> first_candidate f ks)"

function strip_zeros :: "int \<Rightarrow> int" where
  "strip_zeros s = (if s \<noteq> 0 \<and> s mod 10 = 0 then strip_zeros (s div 10) else s)"
  by pat_completeness auto
termination
  by (relation "measure (\<lambda>s. nat \<bar>s\<bar>)") auto

definition shortest :: "int \<Rightarrow> int \<Rightarrow> string \<times> int" where
  "shortest m e =
     (let pq = scale2 m 1 e;
          n0 = floor_log10 (fst pq) (snd pq) + 1;
          sk = (case first_candidate (candidate (m, e) pq n0)
                       [1, 2, 3, 4, 5, 6, 7, 8, 9, 10, 11, 12, 13, 14, 15, 16] of
                  Some sk \<Rightarrow> sk
                | None \<Rightarrow>
                    (case scale10 (fst pq) (snd pq) (17 - n0) of (P, Q) \<Rightarrow>
                       (round_half_even P Q, 17)))
      in (dec (strip_zeros (fst sk)),
          if 10 ^ nat (snd sk) \<le> fst sk then n0 + 1 else n0))"

text \<open>The layout of the digits: plain, with a decimal point, or in exponent notation.\<close>

definition exponent_suffix :: "int \<Rightarrow> string" where
  "exponent_suffix n =
     ''e'' @ (if n - 1 < 0 then ''-'' else ''+'') @ dec \<bar>n - 1\<bar>"

definition format_digits :: "string \<Rightarrow> int \<Rightarrow> string" where
  "format_digits ds n =
     (let k = int (length ds)
      in if k \<le> n \<and> n \<le> 21 then ds @ replicate (nat (n - k)) CHR ''0''
         else if 0 < n \<and> n \<le> 21 then take (nat n) ds @ ''.'' @ drop (nat n) ds
         else if - 6 < n \<and> n \<le> 0 then ''0.'' @ replicate (nat (- n)) CHR ''0'' @ ds
         else if k = 1 then ds @ exponent_suffix n
         else take 1 ds @ ''.'' @ drop 1 ds @ exponent_suffix n)"

fun number_toString :: "number \<Rightarrow> string" where
  "number_toString NaN = ''NaN''"
| "number_toString (Infinity neg) = (if neg then ''-Infinity'' else ''Infinity'')"
| "number_toString (Finite neg m e) =
     (if m = 0 then ''0''
      else (if neg then ''-'' else '''') @
           (case shortest m e of (ds, n) \<Rightarrow> format_digits ds n))"

section \<open>The calculator\<close>

record CalculatorState =
  currentValue :: string
  previousValue :: string
  operation :: "string option"
  overwrite :: bool

text \<open>
  The five actions of the type \<open>CalculatorAction\<close>. A sixth constructor stands for
  an action of any other type: the type excludes it, and the \<^verbatim>\<open>default\<close> branch of
  the reducer's \<^verbatim>\<open>switch\<close> handles it.
\<close>

datatype CalculatorAction =
    ADD_DIGIT string
  | CHOOSE_OPERATION string
  | CLEAR
  | DELETE
  | EVALUATE
  | UNKNOWN_ACTION

definition initialState :: CalculatorState where
  "initialState =
     \<lparr>currentValue = ''0'', previousValue = '''', operation = None, overwrite = True\<rparr>"

text \<open>
  The evaluator. The \<^verbatim>\<open>switch\<close> compares the operation with the four signs by
  \<^verbatim>\<open>===\<close>; any other value, \<^verbatim>\<open>null\<close> included, takes the default branch.
\<close>

definition calculate :: "CalculatorState \<Rightarrow> string" where
  "calculate state =
     (let prev = parseFloat (previousValue state);
          current = parseFloat (currentValue state)
      in if isNaN prev \<or> isNaN current then ''0''
         else if operation state = Some ''+'' then number_toString (number_add prev current)
         else if operation state = Some ''-'' then number_toString (number_sub prev current)
         else if operation state = Some times_sign then
           number_toString (number_mul prev current)
         else if operation state = Some division_sign then
           (if is_zero current then ''Error''
            else number_toString (number_div prev current))
         else ''0'')"

text \<open>
  The truth value of \<^verbatim>\<open>state.operation\<close> in a condition: \<^verbatim>\<open>null\<close> and the empty
  string are false, every other string is true.
\<close>

definition truthy :: "string option \<Rightarrow> bool" where
  "truthy v = (case v of None \<Rightarrow> False | Some s \<Rightarrow> s \<noteq> [])"

text \<open>The reducer, branch by branch; the last equation is the \<^verbatim>\<open>default\<close> branch.\<close>

fun calculatorReducer :: "CalculatorState \<Rightarrow> CalculatorAction \<Rightarrow> CalculatorState" where
  "calculatorReducer state (ADD_DIGIT payload) =
     (if overwrite state then state\<lparr>currentValue := payload, overwrite := False\<rparr>
      else if payload = ''.'' \<and> includes_str (currentValue state) ''.'' then state
      else state\<lparr>currentValue :=
             (if currentValue state = ''0'' \<and> payload \<noteq> ''.'' then payload
              else currentValue state @ payload)\<rparr>)"
| "calculatorReducer state (CHOOSE_OPERATION payload) =
     (if currentValue state = ''0'' \<and> previousValue state = '''' then state
      else if previousValue state = '''' then
        state\<lparr>operation := Some payload, previousValue := currentValue state,
              currentValue := ''0'', overwrite := True\<rparr>
      else if truthy (operation state) then
        state\<lparr>previousValue := calculate state, operation := Some payload,
              currentValue := ''0'', overwrite := True\<rparr>
      else state)"
| "calculatorReducer state CLEAR = initialState"
| "calculatorReducer state DELETE =
     (if overwrite state then state\<lparr>currentValue := ''0'', overwrite := True\<rparr>
      else if length (currentValue state) = 1 then
        state\<lparr>currentValue := ''0'', overwrite := True\<rparr>
      else state\<lparr>currentValue := slice (currentValue state) 0 (- 1)\<rparr>)"
| "calculatorReducer state EVALUATE =
     (if operation state = None \<or> previousValue state = '''' \<or> currentValue state = ''0''
      then state
      else state\<lparr>previousValue := '''', operation := None,
                 currentValue := calculate state, overwrite := True\<rparr>)"
| "calculatorReducer state UNKNOWN_ACTION = state"

text \<open>A sequence of actions, dispatched one after the other.\<close>

fun dispatch_all :: "CalculatorState \<Rightarrow> CalculatorAction list \<Rightarrow> CalculatorState" where
  "dispatch_all state [] = state"
| "dispatch_all state (a # as) = dispatch_all (calculatorReducer state a) as"

text \<open>
  The events of the input surface: the digit keys and the decimal point, and the four
  operators. The reachable states are those the reducer produces from the initial state
  under these events.
\<close>

definition digit_payloads :: "string list" where
  "digit_payloads = map (\<lambda>c. [c]) ''0123456789.''"

definition operator_payloads :: "string list" where
  "operator_payloads = [''+'', ''-'', times_sign, division_sign]"

fun input_event :: "CalculatorAction \<Rightarrow> bool" where
  "input_event (ADD_DIGIT payload) = (payload \<in> set digit_payloads)"
| "input_event (CHOOSE_OPERATION payload) = (payload \<in> set operator_payloads)"
| "input_event CLEAR = True"
| "input_event DELETE = True"
| "input_event EVALUATE = True"
| "input_event UNKNOWN_ACTION = False"

inductive reachable :: "CalculatorState \<Rightarrow> bool" where
  initial: "reachable initialState"
| step: "reachable state \<Longrightarrow> input_event a \<Longrightarrow> reachable (calculatorReducer state a)"

section \<open>The strings of the display\<close>

text \<open>
  A numeric literal, as a predicate on strings: an optional minus sign, then digits with
  an optional point and fraction digits, or a point with fraction digits, then an
  optional exponent \<^verbatim>\<open>e\<close> with a sign and digits. The lone point and the empty
  string are not literals.
\<close>

definition exponent_ok :: "string \<Rightarrow> bool" where
  "exponent_ok r =
     (r = [] \<or>
      (take 1 r = ''e'' \<and>
       (take 1 (drop 1 r) = ''+'' \<or> take 1 (drop 1 r) = ''-'') \<and>
       drop 2 r \<noteq> [] \<and> list_all is_digit (drop 2 r)))"

definition unsigned_literal :: "string \<Rightarrow> bool" where
  "unsigned_literal u =
     (let ip = takeWhile is_digit u;
          r1 = dropWhile is_digit u;
          fp = (if take 1 r1 = ''.'' then takeWhile is_digit (drop 1 r1) else []);
          r2 = (if take 1 r1 = ''.'' then dropWhile is_digit (drop 1 r1) else r1)
      in (ip \<noteq> [] \<or> fp \<noteq> []) \<and> exponent_ok r2)"

definition numeric_literal :: "string \<Rightarrow> bool" where
  "numeric_literal s = unsigned_literal (if take 1 s = ''-'' then drop 1 s else s)"

text \<open>
  What the digit keys can leave in the current value: a non-empty string of digits with
  at most one decimal point.
\<close>

definition entered :: "string \<Rightarrow> bool" where
  "entered s =
     (s \<noteq> [] \<and> list_all (\<lambda>c. is_digit c \<or> c = CHR ''.'') s
      \<and> length (filter (\<lambda>c. c = CHR ''.'') s) \<le> 1)"

text \<open>
  What the display can show: a numeric literal, or one of the words \<^verbatim>\<open>Error\<close>,
  \<^verbatim>\<open>NaN\<close>, \<^verbatim>\<open>Infinity\<close> and \<^verbatim>\<open>-Infinity\<close>, or the lone decimal point.
\<close>

definition display_value :: "string \<Rightarrow> bool" where
  "display_value s =
     (numeric_literal s \<or> s = ''Error'' \<or> s = ''.'' \<or> s = ''NaN''
      \<or> s = ''Infinity'' \<or> s = ''-Infinity'')"

text \<open>The invariant of the reducer that carries the induction over the events.\<close>

definition state_ok :: "CalculatorState \<Rightarrow> bool" where
  "state_ok S =
     ((if overwrite S then display_value (currentValue S) else entered (currentValue S))
      \<and> (previousValue S = '''' \<or> display_value (previousValue S)))"

section \<open>The state as a JavaScript object\<close>

text \<open>
  At run time the state is an object, and nothing but the type annotation keeps a
  property from being \<^verbatim>\<open>undefined\<close> or of another type. To state that the reducer
  raises no exception and leaves no property undefined, the reducer is read a second
  time on such objects: a property holds \<^verbatim>\<open>undefined\<close>, \<^verbatim>\<open>null\<close>, a boolean or
  a string, and an operation that JavaScript refuses raises a \<^verbatim>\<open>TypeError\<close>.
\<close>

datatype js_value = JS_undefined | JS_null | JS_boolean bool | JS_string string

datatype js_error = TypeError

record StateObject =
  currentValue_js :: js_value
  previousValue_js :: js_value
  operation_js :: js_value
  overwrite_js :: js_value

text \<open>The conversions that conditions, template literals and \<^verbatim>\<open>parseFloat\<close> apply.\<close>

fun to_boolean :: "js_value \<Rightarrow> bool" where
  "to_boolean JS_undefined = False"
| "to_boolean JS_null = False"
| "to_boolean (JS_boolean b) = b"
| "to_boolean (JS_string s) = (s \<noteq> [])"

fun to_string :: "js_value \<Rightarrow> string" where
  "to_string JS_undefined = ''undefined''"
| "to_string JS_null = ''null''"
| "to_string (JS_boolean b) = (if b then ''true'' else ''false'')"
| "to_string (JS_string s) = s"

text \<open>
  \<^verbatim>\<open>v.includes(t)\<close>, \<^verbatim>\<open>v.length === 1\<close> and \<^verbatim>\<open>v.slice(0, -1)\<close>. Reading a
  property of \<^verbatim>\<open>undefined\<close> or \<^verbatim>\<open>null\<close> raises; a boolean has neither method, so
  calling one raises, and its \<^verbatim>\<open>length\<close> is \<^verbatim>\<open>undefined\<close>, which is not 1.
\<close>

fun includes_js :: "js_value \<Rightarrow> string \<Rightarrow> js_error + bool" where
  "includes_js (JS_string s) t = Inr (includes_str s t)"
| "includes_js _ t = Inl TypeError"

fun length_is_one :: "js_value \<Rightarrow> js_error + bool" where
  "length_is_one (JS_string s) = Inr (length s = 1)"
| "length_is_one (JS_boolean b) = Inr False"
| "length_is_one _ = Inl TypeError"

fun slice_js :: "js_value \<Rightarrow> js_error + js_value" where
  "slice_js (JS_string s) = Inr (JS_string (slice s 0 (- 1)))"
| "slice_js _ = Inl TypeError"

definition initialState_js :: StateObject where
  "initialState_js =
     \<lparr>currentValue_js = JS_string ''0'', previousValue_js = JS_string '''',
      operation_js = JS_null, overwrite_js = JS_boolean True\<rparr>"

text \<open>
  The evaluator on objects: \<^verbatim>\<open>parseFloat\<close> converts its argument to a string first,
  and the \<^verbatim>\<open>switch\<close> compares by \<^verbatim>\<open>===\<close>. No step of it raises.
\<close>

definition calculate_js :: "StateObject \<Rightarrow> string" where
  "calculate_js state =
     (let prev = parseFloat (to_string (previousValue_js state));
          current = parseFloat (to_string (currentValue_js state))
      in if isNaN prev \<or> isNaN current then ''0''
         else if operation_js state = JS_string ''+'' then
           number_toString (number_add prev current)
         else if operation_js state = JS_string ''-'' then
           number_toString (number_sub prev current)
         else if operation_js state = JS_string times_sign then
           number_toString (number_mul prev current)
         else if operation_js state = JS_string division_sign then
           (if is_zero current then ''Error''
            else number_toString (number_div prev current))
         else ''0'')"

text \<open>The reducer on objects, branch by branch; the payload of an action is a string.\<close>

fun calculatorReducer_js :: "StateObject \<Rightarrow> CalculatorAction \<Rightarrow> js_error + StateObject" where
  "calculatorReducer_js state (ADD_DIGIT payload) =
     (if to_boolean (overwrite_js state) then
        Inr (state\<lparr>currentValue_js := JS_string payload, overwrite_js := JS_boolean False\<rparr>)
      else
        (case (if payload = ''.'' then includes_js (currentValue_js state) ''.''
               else Inr False) of
           Inl e \<Rightarrow> Inl e
         | Inr True \<Rightarrow> Inr state
         | Inr False \<Rightarrow>
             Inr (state\<lparr>currentValue_js := JS_string
                    (if currentValue_js state = JS_string ''0'' \<and> payload \<noteq> ''.''
                     then payload
                     else to_string (currentValue_js state) @ payload)\<rparr>)))"
| "calculatorReducer_js state (CHOOSE_OPERATION payload) =
     (if currentValue_js state = JS_string ''0'' \<and> previousValue_js state = JS_string ''''
      then Inr state
      else if previousValue_js state = JS_string '''' then
        Inr (state\<lparr>operation_js := JS_string payload,
                   previousValue_js := currentValue_js state,
                   currentValue_js := JS_string ''0'', overwrite_js := JS_boolean True\<rparr>)
      else if to_boolean (operation_js state) then
        Inr (state\<lparr>previousValue_js := JS_string (calculate_js state),
                   operation_js := JS_string payload,
                   currentValue_js := JS_string ''0'', overwrite_js := JS_boolean True\<rparr>)
      else Inr state)"
| "calculatorReducer_js state CLEAR = Inr initialState_js"
| "calculatorReducer_js state DELETE =
     (if to_boolean (overwrite_js state) then
        Inr (state\<lparr>currentValue_js := JS_string ''0'', overwrite_js := JS_boolean True\<rparr>)
      else
        (case length_is_one (currentValue_js state) of
           Inl e \<Rightarrow> Inl e
         | Inr True \<Rightarrow>
             Inr (state\<lparr>currentValue_js := JS_string ''0'',
                        overwrite_js := JS_boolean True\<rparr>)
         | Inr False \<Rightarrow>
             (case slice_js (currentValue_js state) of
                Inl e \<Rightarrow> Inl e
              | Inr v \<Rightarrow> Inr (state\<lparr>currentValue_js := v\<rparr>))))"
| "calculatorReducer_js state EVALUATE =
     (if operation_js state = JS_undefined \<or> operation_js state = JS_null
         \<or> previousValue_js state = JS_string '''' \<or> currentValue_js state = JS_string ''0''
      then Inr state
      else Inr (state\<lparr>previousValue_js := JS_string '''', operation_js := JS_null,
                      currentValue_js := JS_string (calculate_js state),
                      overwrite_js := JS_boolean True\<rparr>))"
| "calculatorReducer_js state UNKNOWN_ACTION = Inr state"





text \<open>A number of 310 digits, typed on the digit keys.\<close>

definition huge :: string where
  "huge = CHR ''1'' # replicate 309 CHR ''0''"

section \<open>Evaluation on concrete inputs\<close>

text \<open>
  The recursive functions are unfolded only where a concrete value is computed. With the
  weak congruence rules a \<open>let\<close> or a \<open>case\<close> is entered after its argument has
  been evaluated, so that the simplifier computes by value.
\<close>

declare bits.simps [simp del] ndigits.simps [simp del] normalise.simps [simp del]
  dec.simps [simp del] strip_zeros.simps [simp del]

declare number_add.simps [simp del] number_neg.simps [simp del] number_mul.simps [simp del]
  number_div.simps [simp del] number_toString.simps [simp del]

lemmas number_eval = number_add.simps number_neg.simps number_mul.simps number_div.simps
  mk_number_def round_double_def floor_log2_def floor_log10_def scale2_def
  scale10_def round_half_even_def Let_def apply_sign_def bits.simps ndigits.simps
  normalise.simps number_sub_def isNaN_def

lemmas parse_eval = parseFloat_def is_white_space_def is_digit_def digit_value_def
  digits_value_def exponent_part_def

lemmas print_eval = number_toString.simps shortest_def candidate_def roundtrips_def
  strip_zeros.simps dec.simps digit_char_def format_digits_def exponent_suffix_def

lemma parseFloat_2: "parseFloat ''2'' = Finite False 1 1"
  by (simp add: parse_eval number_eval cong: let_weak_cong prod.case_cong_weak)

lemma parseFloat_3: "parseFloat ''3'' = Finite False 3 0"
  by (simp add: parse_eval number_eval cong: let_weak_cong prod.case_cong_weak)

lemma parseFloat_4: "parseFloat ''4'' = Finite False 1 2"
  by (simp add: parse_eval number_eval cong: let_weak_cong prod.case_cong_weak)

lemma parseFloat_5: "parseFloat ''5'' = Finite False 5 0"
  by (simp add: parse_eval number_eval cong: let_weak_cong prod.case_cong_weak)

lemma add_2_3: "number_add (Finite False 1 1) (Finite False 3 0) = Finite False 5 0"
  by (simp add: number_eval cong: let_weak_cong prod.case_cong_weak)

lemma mul_5_4: "number_mul (Finite False 5 0) (Finite False 1 2) = Finite False 5 2"
  by (simp add: number_eval cong: let_weak_cong prod.case_cong_weak)

lemma toString_5: "number_toString (Finite False 5 0) = ''5''"
  by (simp add: print_eval number_eval cong: let_weak_cong prod.case_cong_weak)

lemma toString_20: "number_toString (Finite False 5 2) = ''20''"
  by (simp add: print_eval number_eval cong: let_weak_cong prod.case_cong_weak)

lemma calculate_2_plus_3:
  "calculate \<lparr>currentValue = ''3'', previousValue = ''2'', operation = Some ''+'',
     overwrite = False\<rparr> = ''5''"
  by (simp add: calculate_def isNaN_def parseFloat_2 parseFloat_3 add_2_3 toString_5)

lemma calculate_5_times_4:
  "calculate \<lparr>currentValue = ''4'', previousValue = ''5'', operation = Some times_sign,
     overwrite = False\<rparr> = ''20''"
  by (simp add: calculate_def isNaN_def parseFloat_4 parseFloat_5 mul_5_4 toString_20
      times_sign_def)

lemma parseFloat_0: "parseFloat ''0'' = Finite False 0 0"
  by (simp add: parse_eval number_eval cong: let_weak_cong prod.case_cong_weak)

lemma parseFloat_0_point: "parseFloat ''0.'' = Finite False 0 0"
  by (simp add: parse_eval number_eval cong: let_weak_cong prod.case_cong_weak)

lemma parseFloat_point: "parseFloat ''.'' = NaN"
  by (simp add: parse_eval number_eval cong: let_weak_cong prod.case_cong_weak)

lemma calculate_5_div_0_point:
  "calculate \<lparr>currentValue = ''0.'', previousValue = ''5'', operation = Some division_sign,
     overwrite = False\<rparr> = ''Error''"
  by (simp add: calculate_def isNaN_def parseFloat_0_point parseFloat_5 division_sign_def
      times_sign_def)

lemma calculate_point_div_0:
  "calculate \<lparr>currentValue = ''0'', previousValue = ''.'', operation = Some division_sign,
     overwrite = True\<rparr> = ''0''"
  by (simp add: calculate_def isNaN_def parseFloat_point)

lemma is_zero_not_NaN: "is_zero x \<Longrightarrow> \<not> isNaN x"
  by (cases x) (simp_all add: isNaN_def)

lemma division_sign_distinct:
  "division_sign \<noteq> ''+''" "division_sign \<noteq> ''-''" "division_sign \<noteq> times_sign"
  "division_sign \<noteq> []"
  by (simp_all add: division_sign_def times_sign_def)

lemma calculate_division:
  "operation S = Some division_sign \<Longrightarrow>
   calculate S =
     (if isNaN (parseFloat (previousValue S)) \<or> isNaN (parseFloat (currentValue S)) then ''0''
      else if is_zero (parseFloat (currentValue S)) then ''Error''
      else number_toString
             (number_div (parseFloat (previousValue S)) (parseFloat (currentValue S))))"
  by (simp add: calculate_def division_sign_distinct)

text \<open>The rounding of binary64 is visible on decimal fractions: 0.1 + 0.2 is not 0.3.\<close>

lemma parseFloat_tenth: "parseFloat ''0.1'' = Finite False 3602879701896397 (- 55)"
  by (simp add: parse_eval number_eval cong: let_weak_cong prod.case_cong_weak)

lemma parseFloat_fifth: "parseFloat ''0.2'' = Finite False 3602879701896397 (- 54)"
  by (simp add: parse_eval number_eval cong: let_weak_cong prod.case_cong_weak)

lemma parseFloat_three_tenths: "parseFloat ''0.3'' = Finite False 5404319552844595 (- 54)"
  by (simp add: parse_eval number_eval cong: let_weak_cong prod.case_cong_weak)

lemma tenth_plus_fifth:
  "number_add (parseFloat ''0.1'') (parseFloat ''0.2'') = Finite False 1351079888211149 (- 52)"
  "number_add (parseFloat ''0.1'') (parseFloat ''0.2'') \<noteq> parseFloat ''0.3''"
  unfolding parseFloat_tenth parseFloat_fifth parseFloat_three_tenths
  by (simp_all add: number_eval cong: let_weak_cong prod.case_cong_weak)

section \<open>String lemmas\<close>

lemma includes_single: "includes_str s [c] = (c \<in> set s)"
  by (induction s) auto

lemma slice_drop_last: "slice s 0 (- 1) = butlast s"
proof -
  have "nat (max (int (length s) - 1) 0) = length s - 1"
    by (cases s) simp_all
  then show ?thesis
    by (simp add: slice_def Let_def butlast_conv_take)
qed

section \<open>Numeric literals\<close>

lemma is_digit_digit_char: "d < 10 \<Longrightarrow> is_digit (digit_char d)"
proof -
  assume "d < 10"
  then have "nat d < length ''0123456789''"
    by simp
  then have "''0123456789'' ! nat d \<in> set ''0123456789''"
    by (rule nth_mem)
  then show ?thesis
    by (simp only: is_digit_def digit_char_def)
qed

lemma dec_digits: "dec n \<noteq> [] \<and> list_all is_digit (dec n)"
proof (induction n rule: dec.induct)
  case (1 n)
  show ?case
  proof (cases "n < 10")
    case True
    then show ?thesis
      by (simp add: dec.simps [of n] is_digit_digit_char)
  next
    case False
    with 1 have "list_all is_digit (dec (n div 10))"
      by simp
    moreover have "is_digit (digit_char (n mod 10))"
      by (rule is_digit_digit_char) simp
    ultimately show ?thesis
      using False by (simp add: dec.simps [of n])
  qed
qed

lemma not_digit: "\<not> is_digit CHR ''.''" "\<not> is_digit CHR ''e''" "\<not> is_digit CHR ''-''"
  by (simp_all add: is_digit_def)

lemma is_digit_zero: "is_digit CHR ''0''"
  by (simp add: is_digit_def)

lemma span_digits:
  assumes "list_all is_digit xs" "ys = [] \<or> \<not> is_digit (hd ys)"
  shows "takeWhile is_digit (xs @ ys) = xs" "dropWhile is_digit (xs @ ys) = ys"
proof -
  have "takeWhile is_digit ys = []" "dropWhile is_digit ys = ys"
    using assms(2) by (cases ys; simp)+
  then show "takeWhile is_digit (xs @ ys) = xs" "dropWhile is_digit (xs @ ys) = ys"
    using assms(1) by (simp_all add: list_all_iff)
qed

lemma exponent_ok_suffix: "exponent_ok (exponent_suffix n)"
  using dec_digits [of "\<bar>n - 1\<bar>"] by (simp add: exponent_ok_def exponent_suffix_def)

lemma suffix_head:
  assumes "r = [] \<or> r = exponent_suffix n"
  shows "r = [] \<or> \<not> is_digit (hd r)" "take 1 r \<noteq> ''.''" "exponent_ok r"
  using assms exponent_ok_suffix [of n]
  by (auto simp add: exponent_suffix_def exponent_ok_def not_digit)

lemma literal_digits:
  assumes "ip \<noteq> []" "list_all is_digit ip" "r = [] \<or> r = exponent_suffix n"
  shows "unsigned_literal (ip @ r)"
proof -
  note r = suffix_head [OF assms(3)]
  note sp = span_digits [OF assms(2) r(1)]
  show ?thesis
    unfolding unsigned_literal_def Let_def sp
    using assms(1) r(2,3) by simp
qed

lemma literal_point:
  assumes "list_all is_digit ip" "list_all is_digit fp" "ip \<noteq> [] \<or> fp \<noteq> []"
    and "r = [] \<or> r = exponent_suffix n"
  shows "unsigned_literal (ip @ ''.'' @ fp @ r)"
proof -
  note r = suffix_head [OF assms(4)]
  have "''.'' @ fp @ r = [] \<or> \<not> is_digit (hd (''.'' @ fp @ r))"
    by (simp add: not_digit)
  note sp1 = span_digits [OF assms(1) this]
  note sp2 = span_digits [OF assms(2) r(1)]
  have p: "take 1 (''.'' @ fp @ r) = ''.''" "drop 1 (''.'' @ fp @ r) = fp @ r"
    by simp_all
  show ?thesis
    unfolding unsigned_literal_def Let_def sp1 p sp2
    using assms(3) r(3) by simp
qed

lemma literal_format:
  assumes "ds \<noteq> []" "list_all is_digit ds"
  shows "unsigned_literal (format_digits ds n)"
proof -
  let ?k = "int (length ds)"
  consider (plain) "?k \<le> n \<and> n \<le> 21"
    | (point) "\<not> (?k \<le> n \<and> n \<le> 21)" "0 < n \<and> n \<le> 21"
    | (small) "\<not> (?k \<le> n \<and> n \<le> 21)" "\<not> (0 < n \<and> n \<le> 21)" "- 6 < n \<and> n \<le> 0"
    | (exp1) "\<not> (?k \<le> n \<and> n \<le> 21)" "\<not> (0 < n \<and> n \<le> 21)" "\<not> (- 6 < n \<and> n \<le> 0)"
        "?k = 1"
    | (expn) "\<not> (?k \<le> n \<and> n \<le> 21)" "\<not> (0 < n \<and> n \<le> 21)" "\<not> (- 6 < n \<and> n \<le> 0)"
        "?k \<noteq> 1"
    by blast
  then show ?thesis
  proof cases
    case plain
    have "list_all is_digit (ds @ replicate (nat (n - ?k)) CHR ''0'')"
      using assms(2) by (auto simp add: list_all_iff is_digit_zero)
    then have "unsigned_literal ((ds @ replicate (nat (n - ?k)) CHR ''0'') @ [])"
      using assms(1) by (intro literal_digits [where n = 0]) simp_all
    with plain show ?thesis
      by (auto simp add: format_digits_def Let_def)
  next
    case point
    then have "nat n < length ds"
      by linarith
    then have "take (nat n) ds \<noteq> [] \<or> drop (nat n) ds \<noteq> []"
      by simp
    moreover have "list_all is_digit (take (nat n) ds)" "list_all is_digit (drop (nat n) ds)"
      using assms(2) by (auto simp add: list_all_iff dest: in_set_takeD in_set_dropD)
    ultimately have "unsigned_literal (take (nat n) ds @ ''.'' @ drop (nat n) ds @ [])"
      by (intro literal_point [where n = 0]) simp_all
    with point show ?thesis
      by (auto simp add: format_digits_def Let_def)
  next
    case small
    have "list_all is_digit (replicate (nat (- n)) CHR ''0'' @ ds)"
      using assms(2) by (auto simp add: list_all_iff is_digit_zero)
    then have "unsigned_literal (''0'' @ ''.'' @ (replicate (nat (- n)) CHR ''0'' @ ds) @ [])"
      by (intro literal_point [where n = 0]) (simp_all add: is_digit_zero)
    with small show ?thesis
      by (auto simp add: format_digits_def Let_def)
  next
    case exp1
    have "unsigned_literal (ds @ exponent_suffix n)"
      using assms by (intro literal_digits [where n = n]) simp_all
    with exp1 show ?thesis
      by (auto simp add: format_digits_def Let_def)
  next
    case expn
    have "list_all is_digit (take 1 ds)" "list_all is_digit (drop 1 ds)"
      using assms(2) by (auto simp add: list_all_iff dest: in_set_takeD in_set_dropD)
    moreover have "take 1 ds \<noteq> []"
      using assms(1) by (cases ds) simp_all
    ultimately have "unsigned_literal (take 1 ds @ ''.'' @ drop 1 ds @ exponent_suffix n)"
      by (intro literal_point [where n = n]) simp_all
    with expn show ?thesis
      by (auto simp add: format_digits_def Let_def)
  qed
qed

lemma format_not_minus:
  assumes "ds \<noteq> []" "list_all is_digit ds"
  shows "take 1 (format_digits ds n) \<noteq> ''-''"
proof -
  obtain d ds' where ds: "ds = d # ds'" "is_digit d"
    using assms by (cases ds) simp_all
  then have "d \<noteq> CHR ''-''"
    using not_digit by auto
  then show ?thesis
    using ds by (auto simp add: format_digits_def Let_def take_Cons')
qed

lemma shortest_digits: "fst (shortest m e) \<noteq> [] \<and> list_all is_digit (fst (shortest m e))"
  by (simp add: shortest_def Let_def dec_digits)

lemma display_toString: "display_value (number_toString x)"
proof (cases x)
  case NaN
  then show ?thesis
    by (simp add: display_value_def number_toString.simps)
next
  case (Infinity neg)
  then show ?thesis
    by (simp add: display_value_def number_toString.simps)
next
  case (Finite neg m e)
  obtain ds n where s: "shortest m e = (ds, n)"
    by (cases "shortest m e")
  with shortest_digits [of m e] have ds: "ds \<noteq> []" "list_all is_digit ds"
    by simp_all
  have lit: "unsigned_literal (format_digits ds n)"
    and nm: "take 1 (format_digits ds n) \<noteq> ''-''"
    using ds by (rule literal_format, rule format_not_minus)
  have "numeric_literal (number_toString x)"
  proof (cases "m = 0")
    case True
    then show ?thesis
      using Finite
      by (simp add: number_toString.simps numeric_literal_def unsigned_literal_def
          exponent_ok_def is_digit_def)
  next
    case False
    then show ?thesis
      using Finite s lit nm by (simp add: number_toString.simps numeric_literal_def)
  qed
  then show ?thesis
    by (simp add: display_value_def)
qed

lemma display_calculate: "display_value (calculate S)"
proof -
  have "display_value ''0''" "display_value ''Error''"
    by (simp_all add: display_value_def numeric_literal_def unsigned_literal_def
        exponent_ok_def is_digit_def)
  then show ?thesis
    by (simp add: calculate_def Let_def display_toString)
qed

section \<open>Entered strings\<close>

lemma entered_literal:
  assumes "entered s"
  shows "s = ''.'' \<or> numeric_literal s"
proof -
  define ip where "ip = takeWhile is_digit s"
  define r1 where "r1 = dropWhile is_digit s"
  have s: "s = ip @ r1"
    by (simp add: ip_def r1_def)
  have ip: "list_all is_digit ip"
    by (auto simp add: ip_def list_all_iff dest: set_takeWhileD)
  have chars: "\<forall>c \<in> set s. is_digit c \<or> c = CHR ''.''"
    and count: "length (filter (\<lambda>c. c = CHR ''.'') s) \<le> 1"
    and ne: "s \<noteq> []"
    using assms by (simp_all add: entered_def list_all_iff)
  have nm: "take 1 s \<noteq> ''-''"
    using ne chars not_digit by (cases s) auto
  have "s = ''.'' \<or> unsigned_literal s"
  proof (cases r1)
    case Nil
    with s ne ip have "unsigned_literal (ip @ [])"
      by (intro literal_digits [where n = 0]) simp_all
    with Nil s show ?thesis
      by simp
  next
    case (Cons c fp)
    have "dropWhile is_digit s \<noteq> []"
      using Cons unfolding r1_def by simp
    then have "\<not> is_digit (hd (dropWhile is_digit s))"
      by (rule hd_dropWhile)
    then have "\<not> is_digit (hd r1)"
      unfolding r1_def .
    then have "\<not> is_digit c"
      using Cons by simp
    moreover have "c \<in> set s"
      unfolding s Cons by simp
    ultimately have c: "c = CHR ''.''"
      using chars by blast
    have "CHR ''.'' \<notin> set fp"
    proof
      assume "CHR ''.'' \<in> set fp"
      then have "filter (\<lambda>c. c = CHR ''.'') fp \<noteq> []"
        by (simp add: filter_empty_conv)
      then have "0 < length (filter (\<lambda>c. c = CHR ''.'') fp)"
        by simp
      with count s Cons c show False
        by simp
    qed
    with chars s Cons have fp: "list_all is_digit fp"
      by (auto simp add: list_all_iff)
    show ?thesis
    proof (cases "ip = [] \<and> fp = []")
      case True
      with s Cons c show ?thesis
        by simp
    next
      case False
      with ip fp have "unsigned_literal (ip @ ''.'' @ fp @ [])"
        by (intro literal_point [where n = 0]) simp_all
      with s Cons c show ?thesis
        by simp
    qed
  qed
  with nm show ?thesis
    by (simp add: numeric_literal_def)
qed

lemma entered_display: "entered s \<Longrightarrow> display_value s"
  using entered_literal [of s] by (auto simp add: display_value_def)

lemma payload_char:
  assumes "payload \<in> set digit_payloads"
  obtains c where "payload = [c]" "is_digit c \<or> c = CHR ''.''"
proof -
  from assms have "payload \<in> (\<lambda>c. [c]) ` set ''0123456789.''"
    by (simp only: digit_payloads_def set_map)
  then obtain c where c: "payload = [c]" "c \<in> set ''0123456789.''"
    by (rule imageE)
  have "set ''0123456789.'' = insert CHR ''.'' (set ''0123456789'')"
    by (simp add: insert_commute)
  with c(2) have "is_digit c \<or> c = CHR ''.''"
    unfolding is_digit_def by blast
  with c(1) show ?thesis
    by (rule that)
qed

lemma entered_payload:
  assumes "payload \<in> set digit_payloads"
  shows "entered payload"
proof -
  from assms obtain c where "payload = [c]" "is_digit c \<or> c = CHR ''.''"
    by (rule payload_char)
  then show ?thesis
    by (simp add: entered_def)
qed

lemma entered_append:
  assumes "entered s" "payload \<in> set digit_payloads"
    and "\<not> (payload = ''.'' \<and> includes_str s ''.'')"
  shows "entered (s @ payload)"
proof -
  from assms(2) obtain c where c: "payload = [c]" "is_digit c \<or> c = CHR ''.''"
    by (rule payload_char)
  show ?thesis
  proof (cases "c = CHR ''.''")
    case True
    with assms(3) c have "CHR ''.'' \<notin> set s"
      by (simp add: includes_single)
    then have "filter (\<lambda>c. c = CHR ''.'') s = []"
      by (auto simp add: filter_empty_conv)
    with assms(1) c True show ?thesis
      by (simp add: entered_def)
  next
    case False
    with assms(1) c show ?thesis
      by (simp add: entered_def)
  qed
qed

lemma entered_butlast:
  assumes "entered s" "length s \<noteq> 1"
  shows "entered (butlast s)"
proof -
  have ne: "s \<noteq> []"
    using assms(1) by (simp add: entered_def)
  then have s: "s = butlast s @ [last s]"
    by simp
  have "butlast s \<noteq> []"
    using assms(2) ne by (cases s) auto
  moreover have "list_all (\<lambda>c. is_digit c \<or> c = CHR ''.'') (butlast s)"
    using assms(1) by (auto simp add: entered_def list_all_iff dest: in_set_butlastD)
  moreover have "length (filter (\<lambda>c. c = CHR ''.'') (butlast s))
      \<le> length (filter (\<lambda>c. c = CHR ''.'') (butlast s @ [last s]))"
    by simp
  then have "length (filter (\<lambda>c. c = CHR ''.'') (butlast s))
      \<le> length (filter (\<lambda>c. c = CHR ''.'') s)"
    using s by simp
  ultimately show ?thesis
    using assms(1) by (simp add: entered_def)
qed

section \<open>The invariant of the reducer\<close>

lemma display_zero: "display_value ''0''"
  by (simp add: display_value_def numeric_literal_def unsigned_literal_def exponent_ok_def
      is_digit_def)

lemma state_ok_current: "state_ok S \<Longrightarrow> display_value (currentValue S)"
  by (cases "overwrite S") (simp_all add: state_ok_def entered_display)

lemma state_ok_initial: "state_ok initialState"
  by (simp add: state_ok_def initialState_def display_zero)

lemma state_ok_add_digit:
  assumes "state_ok S" "payload \<in> set digit_payloads"
  shows "state_ok (calculatorReducer S (ADD_DIGIT payload))"
proof (cases "overwrite S")
  case True
  with assms show ?thesis
    by (simp add: state_ok_def entered_payload)
next
  case False
  with assms(1) have e: "entered (currentValue S)"
    by (simp add: state_ok_def)
  show ?thesis
  proof (cases "payload = ''.'' \<and> includes_str (currentValue S) ''.''")
    case True
    with False assms(1) show ?thesis
      by simp
  next
    case False
    from entered_append [OF e assms(2) False] entered_payload [OF assms(2)]
    have "entered (if currentValue S = ''0'' \<and> payload \<noteq> ''.'' then payload
                   else currentValue S @ payload)"
      by simp
    with \<open>\<not> overwrite S\<close> False assms(1) show ?thesis
      by (simp add: state_ok_def)
  qed
qed

lemma state_ok_choose_operation:
  assumes "state_ok S"
  shows "state_ok (calculatorReducer S (CHOOSE_OPERATION payload))"
proof -
  note cur = state_ok_current [OF assms]
  consider (idle) "currentValue S = ''0'' \<and> previousValue S = ''''"
    | (first) "\<not> (currentValue S = ''0'' \<and> previousValue S = '''')" "previousValue S = ''''"
    | (chain) "previousValue S \<noteq> ''''" "truthy (operation S)"
    | (none) "previousValue S \<noteq> ''''" "\<not> truthy (operation S)"
    by blast
  then show ?thesis
  proof cases
    case idle
    with assms show ?thesis
      by simp
  next
    case first
    with cur show ?thesis
      by (simp add: state_ok_def display_zero)
  next
    case chain
    then show ?thesis
      by (simp add: state_ok_def display_zero display_calculate)
  next
    case none
    with assms show ?thesis
      by simp
  qed
qed

lemma state_ok_delete:
  assumes "state_ok S"
  shows "state_ok (calculatorReducer S DELETE)"
proof (cases "overwrite S \<or> length (currentValue S) = 1")
  case True
  with assms show ?thesis
    by (auto simp add: state_ok_def display_zero)
next
  case False
  with assms have "entered (butlast (currentValue S))"
    by (intro entered_butlast) (simp_all add: state_ok_def)
  with False assms show ?thesis
    by (simp add: state_ok_def slice_drop_last)
qed

lemma state_ok_evaluate:
  assumes "state_ok S"
  shows "state_ok (calculatorReducer S EVALUATE)"
  using assms by (simp add: state_ok_def display_calculate)

lemma state_ok_step:
  assumes "state_ok S" "input_event a"
  shows "state_ok (calculatorReducer S a)"
proof (cases a)
  case (ADD_DIGIT payload)
  with assms show ?thesis
    by (simp add: state_ok_add_digit del: calculatorReducer.simps)
next
  case (CHOOSE_OPERATION payload)
  with assms show ?thesis
    by (simp add: state_ok_choose_operation del: calculatorReducer.simps)
next
  case CLEAR
  then show ?thesis
    by (simp add: state_ok_initial)
next
  case DELETE
  with assms show ?thesis
    by (simp add: state_ok_delete del: calculatorReducer.simps)
next
  case EVALUATE
  with assms show ?thesis
    by (simp add: state_ok_evaluate del: calculatorReducer.simps)
next
  case UNKNOWN_ACTION
  with assms show ?thesis
    by simp
qed

lemma reachable_state_ok: "reachable S \<Longrightarrow> state_ok S"
  by (induction rule: reachable.induct) (simp_all add: state_ok_initial state_ok_step)

lemma reachable_dispatch_all:
  "reachable S \<Longrightarrow> list_all input_event as \<Longrightarrow> reachable (dispatch_all S as)"
  by (induction as arbitrary: S) (simp_all add: reachable.step)

section \<open>Overflow\<close>

text \<open>
  A number of 310 digits is beyond the binary64 range and parses as Infinity, so the
  words for the results that are no finite numbers do reach the display: Infinity from
  adding 1 to such a number, -Infinity from subtracting it from 1, and NaN from
  subtracting it from itself.
\<close>

lemma bits_bounds:
  "0 < n \<Longrightarrow> 0 < bits n \<and> 2 ^ nat (bits n - 1) \<le> n \<and> n < 2 ^ nat (bits n)"
proof (induction n rule: bits.induct)
  case (1 n)
  show ?case
  proof (cases "n = 1")
    case True
    then show ?thesis
      by (simp add: bits.simps [of 1] bits.simps [of 0])
  next
    case False
    with "1.prems" have h: "0 < n div 2"
      by simp
    with "1.IH" "1.prems" have ih: "0 < bits (n div 2)"
      "2 ^ nat (bits (n div 2) - 1) \<le> n div 2" "n div 2 < 2 ^ nat (bits (n div 2))"
      by simp_all
    have b: "bits n = bits (n div 2) + 1"
      using "1.prems" by (simp add: bits.simps [of n])
    define k where "k = nat (bits (n div 2) - 1)"
    have k: "bits (n div 2) = int k + 1"
      using ih(1) by (simp add: k_def)
    have n1: "nat (bits n - 1) = Suc k" and n2: "nat (bits n) = Suc (Suc k)"
      by (simp_all add: b k)
    have "nat (int k + 1) = Suc k"
      by arith
    then have "2 ^ k \<le> n div 2" "n div 2 < 2 ^ Suc k"
      using ih(2,3) by (simp_all add: k)
    then have "2 * 2 ^ k \<le> n" "n < 2 * 2 ^ Suc k"
      by linarith+
    then show ?thesis
      unfolding n1 n2 using ih(1) by (simp add: b)
  qed
qed

lemma bits_lower:
  assumes "2 ^ k \<le> n"
  shows "int k < bits n"
proof (rule ccontr)
  assume "\<not> int k < bits n"
  then have le: "nat (bits n) \<le> k"
    by simp
  have pos: "0 < n"
    using assms by (rule less_le_trans [rotated]) simp
  then have "n < 2 ^ nat (bits n)"
    using bits_bounds by simp
  also have "\<dots> \<le> 2 ^ k"
    using le by (rule power_increasing) simp
  finally show False
    using assms by simp
qed

lemma round_double_overflow:
  assumes "2 ^ 1024 \<le> p"
  shows "round_double p 1 = None"
proof -
  have pos: "0 < p"
    using assms by (rule less_le_trans [rotated]) simp
  define l where "l = bits p - 1"
  have l: "1024 \<le> l"
    using bits_lower [OF assms] by (simp add: l_def)
  have lo: "2 ^ nat l \<le> p"
    using bits_bounds [OF pos] by (simp add: l_def)
  have fl: "floor_log2 p 1 = l"
    using l lo by (simp add: floor_log2_def scale2_def bits.simps [of 1] bits.simps [of 0] l_def)
  define t where "t = l - 52"
  have t: "max (floor_log2 p 1 - 52) (- 1074) = t" "0 < t"
    using l by (simp_all add: fl t_def)
  then have sc: "scale2 p 1 (- t) = (p, 2 ^ nat t)"
    by (simp add: scale2_def)
  have "nat l = 52 + nat t"
    using l by (simp add: t_def)
  then have "(2 :: int) ^ nat l = 2 ^ 52 * 2 ^ nat t"
    by (simp only: power_add)
  with lo have "2 ^ 52 * 2 ^ nat t \<le> p"
    by simp
  then have "(2 ^ 52 * 2 ^ nat t) div 2 ^ nat t \<le> p div 2 ^ nat t"
    by (rule zdiv_mono1) simp
  then have "2 ^ 52 \<le> p div 2 ^ nat t"
    by simp
  moreover have "p div 2 ^ nat t \<le> round_half_even p (2 ^ nat t)"
    by (simp add: round_half_even_def Let_def)
  ultimately have "2 ^ 52 \<le> round_half_even p (2 ^ nat t)"
    by linarith
  then have "52 < bits (round_half_even p (2 ^ nat t))"
    using bits_lower [of 52] by simp
  then have "1024 < bits (round_half_even p (2 ^ nat t)) + t"
    using l by (simp add: t_def)
  then show ?thesis
    using pos by (simp add: round_double_def t(1) sc Let_def)
qed

lemma digits_value_zeros:
  "foldl (\<lambda>a c. 10 * a + digit_value c) a (replicate n CHR ''0'') = a * 10 ^ n"
  by (induction n arbitrary: a) (simp_all add: digit_value_def)

lemma parseFloat_digits:
  assumes "is_digit c" "list_all is_digit ds"
  shows "parseFloat (c # ds) = mk_number False (digits_value (c # ds), 1)"
proof -
  have c: "\<not> is_white_space c" "c \<noteq> CHR ''-''" "c \<noteq> CHR ''+''" "c \<noteq> CHR ''I''"
    using assms(1) by (auto simp add: is_digit_def is_white_space_def)
  have "list_all is_digit (c # ds)"
    using assms by simp
  from span_digits [OF this, of "[]"]
  have sp: "takeWhile is_digit (c # ds) = c # ds" "dropWhile is_digit (c # ds) = []"
    by simp_all
  have tr: "dropWhile is_white_space (c # ds) = c # ds"
    using c(1) by simp
  show ?thesis
    unfolding parseFloat_def Let_def tr
    using c(2-4) by (simp add: sp exponent_part_def scale10_def del: takeWhile.simps
        dropWhile.simps)
qed

lemma parseFloat_huge: "parseFloat (CHR ''1'' # replicate 309 CHR ''0'') = Infinity False"
proof -
  have "list_all is_digit (replicate 309 CHR ''0'')"
    by (simp add: list_all_iff is_digit_zero)
  moreover have "is_digit CHR ''1''"
    by (simp add: is_digit_def)
  ultimately have "parseFloat (CHR ''1'' # replicate 309 CHR ''0'')
      = mk_number False (digits_value (CHR ''1'' # replicate 309 CHR ''0''), 1)"
    by (rule parseFloat_digits [rotated])
  moreover have "digits_value (CHR ''1'' # replicate 309 CHR ''0'') = 10 ^ 309"
  proof -
    have "digits_value (CHR ''1'' # replicate 309 CHR ''0'')
        = foldl (\<lambda>a c. 10 * a + digit_value c) (10 * 0 + digit_value CHR ''1'')
            (replicate 309 CHR ''0'')"
      by (simp only: digits_value_def foldl_Cons)
    also have "\<dots> = (10 * 0 + digit_value CHR ''1'') * 10 ^ 309"
      by (rule digits_value_zeros)
    also have "\<dots> = 10 ^ 309"
      by (simp add: digit_value_def)
    finally show ?thesis .
  qed
  moreover have "round_double (10 ^ 309) 1 = None"
    by (rule round_double_overflow) simp
  ultimately show ?thesis
    by (simp add: mk_number_def)
qed

lemma parseFloat_1: "parseFloat ''1'' = Finite False 1 0"
  by (simp add: parse_eval number_eval cong: let_weak_cong prod.case_cong_weak)

lemma dispatch_all_append:
  "dispatch_all S (as @ bs) = dispatch_all (dispatch_all S as) bs"
  by (induction as arbitrary: S) simp_all

lemma type_digits:
  assumes "list_all is_digit ds" "\<not> overwrite S" "currentValue S \<noteq> []"
    and "currentValue S \<noteq> ''0''"
  shows "dispatch_all S (map (\<lambda>c. ADD_DIGIT [c]) ds) = S\<lparr>currentValue := currentValue S @ ds\<rparr>"
  using assms
proof (induction ds arbitrary: S)
  case Nil
  then show ?case
    by simp
next
  case (Cons c ds)
  from Cons.prems(1) have c: "c \<noteq> CHR ''.''" and ds: "list_all is_digit ds"
    using not_digit(1) by auto
  let ?S = "S\<lparr>currentValue := currentValue S @ [c]\<rparr>"
  have step: "calculatorReducer S (ADD_DIGIT [c]) = ?S"
    using Cons.prems(2,4) c by simp
  have "currentValue ?S \<noteq> ''0''"
    using Cons.prems(3) by (cases "currentValue S") simp_all
  with Cons.prems(2) ds have "dispatch_all ?S (map (\<lambda>c. ADD_DIGIT [c]) ds)
      = ?S\<lparr>currentValue := currentValue ?S @ ds\<rparr>"
    by (intro Cons.IH) simp_all
  with step show ?case
    by simp
qed

lemma type_huge:
  assumes "overwrite S"
  shows "dispatch_all S (map (\<lambda>c. ADD_DIGIT [c]) huge)
    = S\<lparr>currentValue := huge, overwrite := False\<rparr>"
proof -
  let ?S = "S\<lparr>currentValue := ''1'', overwrite := False\<rparr>"
  have "list_all is_digit (replicate 309 CHR ''0'')"
    by (simp add: list_all_iff is_digit_zero)
  then have "dispatch_all ?S (map (\<lambda>c. ADD_DIGIT [c]) (replicate 309 CHR ''0''))
      = ?S\<lparr>currentValue := currentValue ?S @ replicate 309 CHR ''0''\<rparr>"
    by (intro type_digits) simp_all
  with assms show ?thesis
    by (simp add: huge_def)
qed

lemma input_event_huge: "list_all input_event (map (\<lambda>c. ADD_DIGIT [c]) huge)"
  by (simp add: huge_def list_all_iff digit_payloads_def)

lemma huge_not_zero: "huge \<noteq> ''0''" "huge \<noteq> []"
  by (simp_all add: huge_def)

lemma calculate_huge:
  "calculate \<lparr>currentValue = ''1'', previousValue = huge, operation = Some ''+'',
     overwrite = False\<rparr> = ''Infinity''"
  "calculate \<lparr>currentValue = huge, previousValue = ''1'', operation = Some ''-'',
     overwrite = False\<rparr> = ''-Infinity''"
  "calculate \<lparr>currentValue = huge, previousValue = huge, operation = Some ''-'',
     overwrite = False\<rparr> = ''NaN''"
  using parseFloat_huge
  by (simp_all add: calculate_def huge_def [symmetric] parseFloat_1 isNaN_def number_sub_def
      number_add.simps number_neg.simps number_toString.simps)

lemma nonfinite_results_reachable:
  "reachable \<lparr>currentValue = ''Infinity'', previousValue = '''', operation = None,
     overwrite = True\<rparr>"
  "reachable \<lparr>currentValue = ''-Infinity'', previousValue = '''', operation = None,
     overwrite = True\<rparr>"
  "reachable \<lparr>currentValue = ''NaN'', previousValue = '''', operation = None,
     overwrite = True\<rparr>"
proof -
  let ?type = "map (\<lambda>c. ADD_DIGIT [c]) huge"
  have "reachable (dispatch_all initialState
      (?type @ [CHOOSE_OPERATION ''+'', ADD_DIGIT ''1'', EVALUATE]))"
    by (intro reachable_dispatch_all reachable.initial)
      (simp add: input_event_huge digit_payloads_def operator_payloads_def)
  then show "reachable \<lparr>currentValue = ''Infinity'', previousValue = '''', operation = None,
      overwrite = True\<rparr>"
    by (simp add: dispatch_all_append type_huge initialState_def huge_not_zero
        calculate_huge)
  have "reachable (dispatch_all initialState
      ([ADD_DIGIT ''1'', CHOOSE_OPERATION ''-''] @ ?type @ [EVALUATE]))"
    by (intro reachable_dispatch_all reachable.initial)
      (simp add: input_event_huge digit_payloads_def operator_payloads_def)
  then show "reachable \<lparr>currentValue = ''-Infinity'', previousValue = '''',
      operation = None, overwrite = True\<rparr>"
    by (simp add: dispatch_all_append type_huge initialState_def huge_not_zero
        calculate_huge)
  have "reachable (dispatch_all initialState
      (?type @ [CHOOSE_OPERATION ''-''] @ ?type @ [EVALUATE]))"
    by (intro reachable_dispatch_all reachable.initial)
      (simp add: input_event_huge digit_payloads_def operator_payloads_def)
  then show "reachable \<lparr>currentValue = ''NaN'', previousValue = '''', operation = None,
      overwrite = True\<rparr>"
    by (simp add: dispatch_all_append type_huge initialState_def huge_not_zero
        calculate_huge)
qed

section \<open>The values of the display\<close>

text \<open>
  C2, as stated: in every reachable state the current value would be a numeric literal,
  "Error" or "0", and the previous value a string-encoded number or empty. Digit(.) from
  the initial state leaves the current value ".", which is none of the three; and
  Digit(5), ChooseOperation(division), ChooseOperation(+) leave the previous value
  "Error", which is neither a number nor empty.
\<close>

theorem display_invariant_counterexample:
  "reachable
     \<lparr>currentValue = ''.'', previousValue = '''', operation = None, overwrite = False\<rparr>
   \<and> \<not> (numeric_literal ''.'' \<or> ''.'' = ''Error'' \<or> ''.'' = ''0'')
   \<and> reachable
       \<lparr>currentValue = ''0'', previousValue = ''Error'', operation = Some ''+'',
         overwrite = True\<rparr>
   \<and> \<not> (numeric_literal ''Error'' \<or> ''Error'' = '''')"
proof -
  have "reachable (dispatch_all initialState [ADD_DIGIT ''.''])"
    by (intro reachable_dispatch_all reachable.initial) (simp add: digit_payloads_def)
  moreover have "reachable
      (dispatch_all initialState
         [ADD_DIGIT ''5'', CHOOSE_OPERATION division_sign, CHOOSE_OPERATION ''+''])"
    by (intro reachable_dispatch_all reachable.initial)
      (simp add: digit_payloads_def operator_payloads_def)
  moreover have "calculate
      \<lparr>currentValue = ''0'', previousValue = ''5'', operation = Some division_sign,
        overwrite = True\<rparr> = ''Error''"
    by (simp add: calculate_division parseFloat_5 parseFloat_0 isNaN_def)
  ultimately show ?thesis
    by (simp add: initialState_def truthy_def division_sign_distinct numeric_literal_def
        unsigned_literal_def exponent_ok_def is_digit_def)
qed

text \<open>
  C2, amended: in every reachable state the current value is a numeric literal ("0"
  among them), or "Error", or the lone decimal point ".", or one of the words "NaN",
  "Infinity" and "-Infinity" that the evaluator prints for a result that is no finite
  number; and the previous value is the empty string or one of these strings. Each of
  the three words is the current value of a reachable state, by the lemma
  \<open>nonfinite_results_reachable\<close>.
\<close>

theorem display_invariant:
  assumes "reachable S"
  shows "display_value (currentValue S)
    \<and> (previousValue S = '''' \<or> display_value (previousValue S))"
proof -
  have ok: "state_ok S"
    using assms by (rule reachable_state_ok)
  then have "previousValue S = '''' \<or> display_value (previousValue S)"
    by (simp add: state_ok_def)
  with state_ok_current [OF ok] show ?thesis
    by simp
qed

theorem display_invariant_witness:
  "reachable
     \<lparr>currentValue = ''0'', previousValue = ''Error'', operation = Some ''+'',
       overwrite = True\<rparr>
   \<and> display_value ''0'' \<and> display_value ''Error''"
proof -
  have "reachable
      (dispatch_all initialState
         [ADD_DIGIT ''5'', CHOOSE_OPERATION division_sign, CHOOSE_OPERATION ''+''])"
    by (intro reachable_dispatch_all reachable.initial)
      (simp add: digit_payloads_def operator_payloads_def)
  moreover have "calculate
      \<lparr>currentValue = ''0'', previousValue = ''5'', operation = Some division_sign,
        overwrite = True\<rparr> = ''Error''"
    by (simp add: calculate_division parseFloat_5 parseFloat_0 isNaN_def)
  ultimately have r: "reachable
      \<lparr>currentValue = ''0'', previousValue = ''Error'', operation = Some ''+'',
        overwrite = True\<rparr>"
    by (simp add: initialState_def truthy_def division_sign_distinct)
  from display_invariant [OF r] r show ?thesis
    by simp
qed

section \<open>Clear\<close>

text \<open>
  C7. From every state the Clear event yields exactly the initial state: the current
  value is "0", the previous value is empty, no operation is pending and overwrite is
  set. Hence a second Clear changes nothing.
\<close>

theorem clear_resets:
  "calculatorReducer S CLEAR =
     \<lparr>currentValue = ''0'', previousValue = '''', operation = None, overwrite = True\<rparr>
   \<and> calculatorReducer S CLEAR = initialState
   \<and> calculatorReducer (calculatorReducer S CLEAR) CLEAR = calculatorReducer S CLEAR"
  by (simp add: initialState_def)

section \<open>Evaluate\<close>

text \<open>
  C3. Evaluate returns the state unchanged if and only if no operation is pending, or
  the previous value is empty, or the current value is "0". Otherwise the current value
  becomes the evaluator's result for the state, the previous value becomes empty, the
  operation is cleared and overwrite is set.
\<close>

theorem evaluate_rule:
  "(calculatorReducer S EVALUATE = S) =
     (operation S = None \<or> previousValue S = '''' \<or> currentValue S = ''0'')
   \<and> (\<not> (operation S = None \<or> previousValue S = '''' \<or> currentValue S = ''0'') \<longrightarrow>
        calculatorReducer S EVALUATE =
          S\<lparr>currentValue := calculate S, previousValue := '''', operation := None,
            overwrite := True\<rparr>)"
proof (cases "operation S = None \<or> previousValue S = '''' \<or> currentValue S = ''0''")
  case True
  then show ?thesis
    by auto
next
  case False
  then have ne: "operation S \<noteq> None" "previousValue S \<noteq> ''''" "currentValue S \<noteq> ''0''"
    by auto
  have eq: "calculatorReducer S EVALUATE =
      S\<lparr>currentValue := calculate S, previousValue := '''', operation := None,
        overwrite := True\<rparr>"
    using ne by auto
  then have "previousValue (calculatorReducer S EVALUATE) = ''''"
    by simp
  with ne have "calculatorReducer S EVALUATE \<noteq> S"
    by metis
  with ne eq show ?thesis
    by blast
qed

theorem evaluate_rule_witness:
  "calculatorReducer
     \<lparr>currentValue = ''4'', previousValue = ''5'', operation = Some times_sign,
       overwrite = False\<rparr> EVALUATE =
   \<lparr>currentValue = ''20'', previousValue = '''', operation = None, overwrite = True\<rparr>"
  using evaluate_rule [of "\<lparr>currentValue = ''4'', previousValue = ''5'',
     operation = Some times_sign, overwrite = False\<rparr>"]
  by (simp add: calculate_5_times_4)

section \<open>Operator chaining\<close>

text \<open>
  C4. From the initial state the events Digit(2), ChooseOperation(+), Digit(3),
  ChooseOperation(multiplication), Digit(4), Evaluate leave the current value "20": the
  pending addition is folded when the second operator is chosen, with no precedence.
\<close>

theorem chaining_folds_left:
  "currentValue
     (dispatch_all initialState
        [ADD_DIGIT ''2'', CHOOSE_OPERATION ''+'', ADD_DIGIT ''3'',
         CHOOSE_OPERATION times_sign, ADD_DIGIT ''4'', EVALUATE]) = ''20''"
  by (simp add: initialState_def truthy_def calculate_2_plus_3 calculate_5_times_4)

section \<open>Digit entry\<close>

text \<open>
  C9. When overwrite is not set and the current value already contains a decimal point,
  Digit(.) returns the state unchanged. From the initial state the events Digit(1),
  Digit(.), Digit(.), Digit(2) leave the current value "1.2".
\<close>

theorem duplicate_point_rejected:
  "(\<not> overwrite S \<and> includes_str (currentValue S) ''.'' \<longrightarrow>
      calculatorReducer S (ADD_DIGIT ''.'') = S)
   \<and> currentValue
       (dispatch_all initialState
          [ADD_DIGIT ''1'', ADD_DIGIT ''.'', ADD_DIGIT ''.'', ADD_DIGIT ''2'']) = ''1.2''"
  by (simp add: initialState_def)

theorem duplicate_point_rejected_witness:
  "calculatorReducer
     \<lparr>currentValue = ''1.'', previousValue = '''', operation = None, overwrite = False\<rparr>
     (ADD_DIGIT ''.'') =
   \<lparr>currentValue = ''1.'', previousValue = '''', operation = None, overwrite = False\<rparr>"
  using duplicate_point_rejected [of "\<lparr>currentValue = ''1.'', previousValue = '''',
     operation = None, overwrite = False\<rparr>"]
  by simp

section \<open>Delete\<close>

text \<open>
  C10. When overwrite is set or the current value has exactly one character, Delete
  sets the current value to "0" and sets overwrite; otherwise it removes exactly the
  last character of the current value and changes nothing else. From the initial state
  Delete leaves the current value "0"; from a current value "12" with overwrite not set,
  Delete gives "1" and a second Delete gives "0" with overwrite set.
\<close>

theorem delete_rule:
  "(overwrite S \<or> length (currentValue S) = 1 \<longrightarrow>
      calculatorReducer S DELETE = S\<lparr>currentValue := ''0'', overwrite := True\<rparr>)
   \<and> (\<not> (overwrite S \<or> length (currentValue S) = 1) \<longrightarrow>
      calculatorReducer S DELETE = S\<lparr>currentValue := butlast (currentValue S)\<rparr>)
   \<and> currentValue (calculatorReducer initialState DELETE) = ''0''
   \<and> (currentValue S = ''12'' \<and> \<not> overwrite S \<longrightarrow>
        currentValue (calculatorReducer S DELETE) = ''1''
        \<and> currentValue (dispatch_all S [DELETE, DELETE]) = ''0''
        \<and> overwrite (dispatch_all S [DELETE, DELETE]))"
  by (simp add: initialState_def slice_drop_last)

theorem delete_rule_witness:
  "calculatorReducer
     \<lparr>currentValue = ''12'', previousValue = '''', operation = None, overwrite = False\<rparr>
     DELETE =
   \<lparr>currentValue = ''1'', previousValue = '''', operation = None, overwrite = False\<rparr>
   \<and> dispatch_all
       \<lparr>currentValue = ''12'', previousValue = '''', operation = None, overwrite = False\<rparr>
       [DELETE, DELETE] =
     \<lparr>currentValue = ''0'', previousValue = '''', operation = None, overwrite = True\<rparr>
   \<and> calculatorReducer
       \<lparr>currentValue = ''7'', previousValue = '''', operation = None, overwrite = False\<rparr>
       DELETE =
     \<lparr>currentValue = ''0'', previousValue = '''', operation = None, overwrite = True\<rparr>"
  using delete_rule [of "\<lparr>currentValue = ''12'', previousValue = '''', operation = None,
      overwrite = False\<rparr>"]
    delete_rule [of "\<lparr>currentValue = ''7'', previousValue = '''', operation = None,
      overwrite = False\<rparr>"]
  by (simp add: slice_drop_last)

section \<open>Division by zero\<close>

text \<open>
  C1, as stated: from the initial state the events Digit(5), ChooseOperation(division),
  Digit(0), Evaluate would leave the current value "Error". They do not: the current
  value is then the literal "0", for which Evaluate returns the state unchanged.
\<close>

theorem zero_divisor_sequence_counterexample:
  "currentValue
     (dispatch_all initialState
        [ADD_DIGIT ''5'', CHOOSE_OPERATION division_sign, ADD_DIGIT ''0'', EVALUATE])
   \<noteq> ''Error''"
  by (simp add: initialState_def)

text \<open>
  C1, amended: the four events leave the current value "0" with the division by 5 still
  pending, Evaluate being without effect on a current value "0". A zero divisor in
  another spelling reaches the evaluator: Digit(5), ChooseOperation(division), Digit(0),
  Digit(.), Evaluate leave the current value "Error".
\<close>

theorem zero_divisor_sequence:
  "dispatch_all initialState
     [ADD_DIGIT ''5'', CHOOSE_OPERATION division_sign, ADD_DIGIT ''0'', EVALUATE] =
   \<lparr>currentValue = ''0'', previousValue = ''5'', operation = Some division_sign,
     overwrite = False\<rparr>
   \<and> currentValue
       (dispatch_all initialState
          [ADD_DIGIT ''5'', CHOOSE_OPERATION division_sign, ADD_DIGIT ''0'', ADD_DIGIT ''.'',
           EVALUATE]) = ''Error''"
  by (simp add: initialState_def calculate_5_div_0_point)

section \<open>The evaluator\<close>

text \<open>
  C8. The evaluator returns a string on every path and raises nothing. Its checks are
  made in this order: when either operand fails to parse as a number the result is "0";
  when both parse, the operation is the division and the current operand is zero, the
  result is "Error". Every other result is "0" or a printed number.
\<close>

theorem evaluator_fallbacks:
  "(isNaN (parseFloat (previousValue S)) \<or> isNaN (parseFloat (currentValue S)) \<longrightarrow>
      calculate S = ''0'')
   \<and> (\<not> isNaN (parseFloat (previousValue S)) \<and> operation S = Some division_sign
        \<and> is_zero (parseFloat (currentValue S)) \<longrightarrow>
      calculate S = ''Error'')
   \<and> (calculate S = ''0'' \<or> calculate S = ''Error''
        \<or> (\<exists>x. calculate S = number_toString x))"
proof (intro conjI impI)
  assume "isNaN (parseFloat (previousValue S)) \<or> isNaN (parseFloat (currentValue S))"
  then show "calculate S = ''0''"
    by (auto simp add: calculate_def)
next
  assume "\<not> isNaN (parseFloat (previousValue S)) \<and> operation S = Some division_sign
    \<and> is_zero (parseFloat (currentValue S))"
  then show "calculate S = ''Error''"
    by (simp add: calculate_division is_zero_not_NaN)
next
  show "calculate S = ''0'' \<or> calculate S = ''Error''
    \<or> (\<exists>x. calculate S = number_toString x)"
    by (auto simp add: calculate_def Let_def)
qed

theorem evaluator_fallbacks_witness:
  "calculate \<lparr>currentValue = ''0'', previousValue = ''.'', operation = Some division_sign,
     overwrite = True\<rparr> = ''0''
   \<and> calculate \<lparr>currentValue = ''0.'', previousValue = ''5'', operation = Some division_sign,
       overwrite = False\<rparr> = ''Error''"
  using evaluator_fallbacks [of "\<lparr>currentValue = ''0'', previousValue = ''.'',
      operation = Some division_sign, overwrite = True\<rparr>"]
    evaluator_fallbacks [of "\<lparr>currentValue = ''0.'', previousValue = ''5'',
      operation = Some division_sign, overwrite = False\<rparr>"]
  by (simp add: parseFloat_point parseFloat_0_point parseFloat_5 isNaN_def)

section \<open>Choosing an operator while one is pending\<close>

text \<open>
  C5, as stated: for every state with a previous value and a pending division, choosing
  an operator while the current value is "0" would store "Error" as the previous value.
  The state reached by Digit(.), ChooseOperation(division) has the previous value ".",
  which does not parse; choosing an operator there stores "0".
\<close>

theorem pending_division_by_zero_counterexample:
  "dispatch_all initialState [ADD_DIGIT ''.'', CHOOSE_OPERATION division_sign] =
     \<lparr>currentValue = ''0'', previousValue = ''.'', operation = Some division_sign,
       overwrite = True\<rparr>
   \<and> previousValue
       (calculatorReducer
          \<lparr>currentValue = ''0'', previousValue = ''.'', operation = Some division_sign,
            overwrite = True\<rparr>
          (CHOOSE_OPERATION ''+'')) \<noteq> ''Error''"
  by (simp add: initialState_def truthy_def division_sign_distinct calculate_point_div_0)

text \<open>
  C5, amended: for every state with a non-empty previous value and a pending operation
  (a non-empty string, as the four operators are), ChooseOperation stores the
  evaluator's result as the previous value, also when the current value is "0", where
  Evaluate returns the state unchanged. When the pending operation is the division and
  the current value is "0", the stored previous value is "Error" if the previous value
  parses as a number, and "0" if it does not.
\<close>

theorem chaining_evaluates_at_zero:
  "(previousValue S \<noteq> '''' \<and> truthy (operation S) \<longrightarrow>
      calculatorReducer S (CHOOSE_OPERATION op') =
        S\<lparr>previousValue := calculate S, operation := Some op', currentValue := ''0'',
          overwrite := True\<rparr>)
   \<and> (currentValue S = ''0'' \<longrightarrow> calculatorReducer S EVALUATE = S)
   \<and> (previousValue S \<noteq> '''' \<and> operation S = Some division_sign \<and> currentValue S = ''0''
        \<longrightarrow>
      previousValue (calculatorReducer S (CHOOSE_OPERATION op')) =
        (if isNaN (parseFloat (previousValue S)) then ''0'' else ''Error''))"
  by (simp add: truthy_def division_sign_distinct calculate_division parseFloat_0 isNaN_def)

theorem chaining_evaluates_at_zero_witness:
  "calculatorReducer
     \<lparr>currentValue = ''0'', previousValue = ''5'', operation = Some division_sign,
       overwrite = True\<rparr> (CHOOSE_OPERATION ''+'') =
   \<lparr>currentValue = ''0'', previousValue = ''Error'', operation = Some ''+'',
     overwrite = True\<rparr>
   \<and> calculatorReducer
       \<lparr>currentValue = ''0'', previousValue = ''5'', operation = Some division_sign,
         overwrite = True\<rparr> EVALUATE =
     \<lparr>currentValue = ''0'', previousValue = ''5'', operation = Some division_sign,
       overwrite = True\<rparr>"
  using chaining_evaluates_at_zero [of "\<lparr>currentValue = ''0'', previousValue = ''5'',
      operation = Some division_sign, overwrite = True\<rparr>" "''+''"]
  by (simp add: truthy_def division_sign_distinct parseFloat_5 isNaN_def calculate_division
      parseFloat_0)

section \<open>Totality\<close>







lemma invalid_state_raises:
  "calculatorReducer_js
     \<lparr>currentValue_js = JS_undefined, previousValue_js = JS_string '''',
      operation_js = JS_null, overwrite_js = JS_boolean False\<rparr> DELETE = Inl TypeError"
  "calculatorReducer_js
     \<lparr>currentValue_js = JS_undefined, previousValue_js = JS_string '''',
      operation_js = JS_null, overwrite_js = JS_boolean False\<rparr> (ADD_DIGIT ''.'')
   = Inl TypeError"
  by simp_all





end
